theory Spec2Isabelle
  imports Main
begin

section \<open>Text\<close>

text \<open>
  Python text is modelled as \<^typ>\<open>string\<close>, read as the UTF-8 encoding of the
  \<^verbatim>\<open>str\<close> object: an ASCII character is one \<^typ>\<open>char\<close>, any other character
  is the two to four bytes of its encoding. Three characters that cannot be
  written inside an Isabelle string literal get names.
\<close>

definition dquote :: char where "dquote = CHR 0x22"
definition bslash :: char where "bslash = CHR 0x5C"
definition newline :: char where "newline = CHR 0x0A"

text \<open>\<^verbatim>\<open>s.startswith(p)\<close>\<close>

definition startswith :: "string \<Rightarrow> string \<Rightarrow> bool" where
  "startswith s p = (take (length p) s = p)"

text \<open>
  The characters for which \<^verbatim>\<open>str.isspace\<close> holds (the set used by
  \<^verbatim>\<open>str.strip()\<close> and by the regular expression class \<^verbatim>\<open>\s\<close> on text), each as
  its UTF-8 encoding: the ASCII ones (tab, line feed, vertical tab, form feed,
  carriage return, the four separators 0x1C..0x1F, space), then U+0085, U+00A0,
  U+1680, U+2000..U+200A, U+2028, U+2029, U+202F, U+205F and U+3000.
\<close>

definition py_whitespace :: "string list" where
  "py_whitespace =
    [[CHR 0x09], [CHR 0x0A], [CHR 0x0B], [CHR 0x0C], [CHR 0x0D],
     [CHR 0x1C], [CHR 0x1D], [CHR 0x1E], [CHR 0x1F], [CHR 0x20],
     [CHR 0xC2, CHR 0x85], [CHR 0xC2, CHR 0xA0],
     [CHR 0xE1, CHR 0x9A, CHR 0x80],
     [CHR 0xE2, CHR 0x80, CHR 0x80], [CHR 0xE2, CHR 0x80, CHR 0x81],
     [CHR 0xE2, CHR 0x80, CHR 0x82], [CHR 0xE2, CHR 0x80, CHR 0x83],
     [CHR 0xE2, CHR 0x80, CHR 0x84], [CHR 0xE2, CHR 0x80, CHR 0x85],
     [CHR 0xE2, CHR 0x80, CHR 0x86], [CHR 0xE2, CHR 0x80, CHR 0x87],
     [CHR 0xE2, CHR 0x80, CHR 0x88], [CHR 0xE2, CHR 0x80, CHR 0x89],
     [CHR 0xE2, CHR 0x80, CHR 0x8A],
     [CHR 0xE2, CHR 0x80, CHR 0xA8], [CHR 0xE2, CHR 0x80, CHR 0xA9],
     [CHR 0xE2, CHR 0x80, CHR 0xAF],
     [CHR 0xE2, CHR 0x81, CHR 0x9F],
     [CHR 0xE3, CHR 0x80, CHR 0x80]]"

text \<open>
  The number of bytes of the first of the given encodings that the text starts
  with, 0 when it starts with none of them.
\<close>

fun lead_len :: "string list \<Rightarrow> string \<Rightarrow> nat" where
  "lead_len [] s = 0"
| "lead_len (w # ws) s =
     (if w \<noteq> [] \<and> startswith s w then length w else lead_len ws s)"

lemma lead_len_le: "lead_len ws s \<le> length s"
proof (induction ws)
  case Nil
  show ?case by simp
next
  case (Cons w ws)
  have "startswith s w \<Longrightarrow> length w \<le> length s"
    unfolding startswith_def by (metis length_take min.cobounded1)
  with Cons show ?case by simp
qed

text \<open>Dropping leading characters of a set, one character at a time.\<close>

function strip_lead :: "string list \<Rightarrow> string \<Rightarrow> string" where
  "strip_lead ws s =
     (if lead_len ws s = 0 then s else strip_lead ws (drop (lead_len ws s) s))"
  by pat_completeness auto
termination
proof (relation "measure (\<lambda>(ws, s). length s)")
  show "wf (measure (\<lambda>(ws, s). length s))" by simp
next
  fix ws :: "string list" and s :: string
  assume "lead_len ws s \<noteq> 0"
  moreover have "lead_len ws s \<le> length s" by (rule lead_len_le)
  ultimately show "((ws, drop (lead_len ws s) s), (ws, s)) \<in> measure (\<lambda>(ws, s). length s)"
    by simp
qed

declare strip_lead.simps [simp del]

text \<open>\<^verbatim>\<open>s.strip()\<close>: whitespace is removed at both ends.\<close>

definition lstrip :: "string \<Rightarrow> string" where
  "lstrip s = strip_lead py_whitespace s"

definition rstrip :: "string \<Rightarrow> string" where
  "rstrip s = rev (strip_lead (map rev py_whitespace) (rev s))"

definition strip :: "string \<Rightarrow> string" where
  "strip s = rstrip (lstrip s)"

text \<open>\<^verbatim>\<open>s.strip(chars)\<close> for a set of ASCII characters.\<close>

definition strip_chars :: "string \<Rightarrow> string \<Rightarrow> string" where
  "strip_chars chars s =
     rev (dropWhile (\<lambda>c. c \<in> set chars) (rev (dropWhile (\<lambda>c. c \<in> set chars) s)))"

section \<open>Values and dictionaries\<close>

text \<open>
  The values \<^verbatim>\<open>json.loads\<close> builds. A float keeps the text of its literal (the
  code never computes with one). A dictionary is a list of pairs in insertion
  order, as Python's \<^verbatim>\<open>dict\<close> keeps its items.
\<close>

datatype json =
    JNull
  | JBool bool
  | JInt int
  | JFloat string
  | JStr string
  | JList "json list"
  | JDict "(string \<times> json) list"

type_synonym pydict = "(string \<times> json) list"

text \<open>\<^verbatim>\<open>key in d\<close>\<close>

definition has_key :: "pydict \<Rightarrow> string \<Rightarrow> bool" where
  "has_key d k = (map_of d k \<noteq> None)"

text \<open>\<^verbatim>\<open>d.get(key, default)\<close>\<close>

definition dict_get :: "pydict \<Rightarrow> string \<Rightarrow> json \<Rightarrow> json" where
  "dict_get d k dflt = (case map_of d k of None \<Rightarrow> dflt | Some v \<Rightarrow> v)"

text \<open>\<^verbatim>\<open>d[key] = value\<close>: a present key keeps its place, a new one goes last.\<close>

fun dict_set :: "string \<Rightarrow> json \<Rightarrow> pydict \<Rightarrow> pydict" where
  "dict_set k v [] = [(k, v)]"
| "dict_set k v (p # d) = (if fst p = k then (k, v) # d else p # dict_set k v d)"

text \<open>\<^verbatim>\<open>d.setdefault(key, value)\<close>, for its effect on the dictionary.\<close>

definition setdefault :: "string \<Rightarrow> json \<Rightarrow> pydict \<Rightarrow> pydict" where
  "setdefault k v d = (if has_key d k then d else d @ [(k, v)])"

section \<open>The field schema\<close>

text \<open>
  \<^verbatim>\<open>get_required_fields\<close>: \<^verbatim>\<open>utils/perplexity_api.py\<close> and \<^verbatim>\<open>utils/data_writer.py\<close>
  each define it, with the same fifteen names in the same order.
\<close>

definition get_required_fields :: "string list" where
  "get_required_fields =
    [''Project Name'',
     ''Project Price per SFT'',
     ''total Price'',
     ''Possession (Year & Month)'',
     ''Location'',
     ''Builder Reputation & Legal Compliance'',
     ''Property Type & Space Utilization'',
     ''Open Space'',
     ''Safety & Security'',
     ''Quality of Construction'',
     ''Home Loan & Financing Options'',
     ''Orientation'',
     ''Configuration (2BHK, 3BHK, etc.)'',
     ''Source URLs'',
     ''Why'']"

definition sentinel :: string where
  "sentinel = ''Information not available''"

section \<open>Exceptions\<close>

text \<open>
  Why \<^verbatim>\<open>json.loads\<close> rejects a text. The wording and the position the library
  puts in the message are not modelled, and no statement below rests on which
  of these kinds the library reports where several apply; what matters is that
  the text is rejected.
\<close>

datatype json_error =
    ExpectingValue
  | ExpectingPropertyName
  | ExpectingColon
  | ExpectingComma
  | ExtraData
  | UnterminatedString
  | InvalidControlCharacter
  | InvalidEscape
  | InvalidUnicodeEscape
  | UnexpectedBOM

text \<open>
  The exceptions the modelled code can meet. \<open>RequestError\<close> stands for whatever
  \<^verbatim>\<open>requests.post\<close>, \<^verbatim>\<open>raise_for_status\<close>, \<^verbatim>\<open>resp.json()\<close> or the path
  \<^verbatim>\<open>['choices'][0]['message']['content'].strip()\<close> raises, labelled by the
  environment. \<open>TypeError\<close> is item assignment on a value that is not a
  dictionary. \<open>EmptyDataError\<close> and \<open>ParserError\<close> are raised by
  \<^verbatim>\<open>pandas.read_csv\<close>, \<open>ValueError\<close> by \<^verbatim>\<open>csv.DictWriter\<close> for a key that is no
  field name.
\<close>

datatype exn =
    RequestError string
  | JSONDecodeError json_error
  | TypeError
  | EmptyDataError
  | ParserError
  | ValueError

section \<open>The library's JSON reader\<close>

text \<open>
  \<^verbatim>\<open>json.loads\<close> with its default settings, on text: the grammar of JSON with
  the reader's extensions (\<^verbatim>\<open>NaN\<close>, \<^verbatim>\<open>Infinity\<close>, \<^verbatim>\<open>-Infinity\<close>), whitespace
  being space, tab, line feed and carriage return. The text is cut into tokens
  first and the tokens are then read by a machine with an explicit context, so
  that every function is total. The interpreter's limits on the depth of
  nesting and on the number of digits of an integer are not modelled.
\<close>

definition hexval :: "char \<Rightarrow> nat option" where
  "hexval c =
     (let n = (of_char c :: nat) in
      if 48 \<le> n \<and> n \<le> 57 then Some (n - 48)
      else if 65 \<le> n \<and> n \<le> 70 then Some (n - 55)
      else if 97 \<le> n \<and> n \<le> 102 then Some (n - 87)
      else None)"

definition hex4 :: "string \<Rightarrow> nat option" where
  "hex4 s =
     (case s of
        a # b # c # d # _ \<Rightarrow>
          (case (hexval a, hexval b, hexval c, hexval d) of
             (Some x, Some y, Some z, Some w) \<Rightarrow> Some (((x * 16 + y) * 16 + z) * 16 + w)
           | _ \<Rightarrow> None)
      | _ \<Rightarrow> None)"

text \<open>The UTF-8 encoding of a code point.\<close>

definition utf8 :: "nat \<Rightarrow> string" where
  "utf8 n =
     (if n < 0x80 then [char_of n]
      else if n < 0x800 then [char_of (0xC0 + n div 64), char_of (0x80 + n mod 64)]
      else if n < 0x10000 then
        [char_of (0xE0 + n div 4096), char_of (0x80 + n div 64 mod 64),
         char_of (0x80 + n mod 64)]
      else
        [char_of (0xF0 + n div 262144), char_of (0x80 + n div 4096 mod 64),
         char_of (0x80 + n div 64 mod 64), char_of (0x80 + n mod 64)])"

definition unescape :: "char \<Rightarrow> char option" where
  "unescape e =
     (if e = dquote \<or> e = bslash \<or> e = CHR ''/'' then Some e
      else if e = CHR ''b'' then Some (CHR 0x08)
      else if e = CHR ''f'' then Some (CHR 0x0C)
      else if e = CHR ''n'' then Some (CHR 0x0A)
      else if e = CHR ''r'' then Some (CHR 0x0D)
      else if e = CHR ''t'' then Some (CHR 0x09)
      else None)"

text \<open>
  The body of a string literal, from after its opening quote: the decoded text
  and what follows the closing quote. Control characters are refused (the
  reader's strict mode), a high surrogate escape directly followed by a low one
  is one code point.
\<close>

function scan_string :: "string \<Rightarrow> string \<Rightarrow> json_error + (string \<times> string)" where
  "scan_string acc [] = Inl UnterminatedString"
| "scan_string acc (c # cs) =
     (if c = dquote then Inr (acc, cs)
      else if c = bslash then
        (case cs of
           [] \<Rightarrow> Inl UnterminatedString
         | e # r \<Rightarrow>
             if e = CHR ''u'' then
               (case hex4 r of
                  None \<Rightarrow> Inl InvalidUnicodeEscape
                | Some hi \<Rightarrow>
                    (case (if 0xD800 \<le> hi \<and> hi \<le> 0xDBFF
                              \<and> startswith (drop 4 r) [bslash, CHR ''u'']
                           then hex4 (drop 6 r) else None) of
                       Some lo \<Rightarrow>
                         if 0xDC00 \<le> lo \<and> lo \<le> 0xDFFF
                         then scan_string
                                (acc @ utf8 (0x10000 + (hi - 0xD800) * 1024 + (lo - 0xDC00)))
                                (drop 10 r)
                         else scan_string (acc @ utf8 hi) (drop 4 r)
                     | None \<Rightarrow> scan_string (acc @ utf8 hi) (drop 4 r)))
             else
               (case unescape e of
                  None \<Rightarrow> Inl InvalidEscape
                | Some ch \<Rightarrow> scan_string (acc @ [ch]) r))
      else if (of_char c :: nat) < 32 then Inl InvalidControlCharacter
      else scan_string (acc @ [c]) cs)"
  by pat_completeness auto
termination
  by (relation "measure (\<lambda>(acc, s). length s)") auto

definition is_digit :: "char \<Rightarrow> bool" where
  "is_digit c = (48 \<le> (of_char c :: nat) \<and> (of_char c :: nat) \<le> 57)"

definition digits_val :: "string \<Rightarrow> int" where
  "digits_val ds = foldl (\<lambda>a c. 10 * a + (of_char c - 48)) 0 ds"

text \<open>
  A number at the head of the text, by the reader's pattern
  \<^verbatim>\<open>(-?(?:0|[1-9][0-9]*))(\.[0-9]+)?([eE][-+]?[0-9]+)?\<close>: the value and what
  follows it. Without fraction and exponent it is an integer.
\<close>

definition scan_number :: "string \<Rightarrow> (json \<times> string) option" where
  "scan_number s =
     (let neg = startswith s ''-'';
          s1 = (if neg then drop 1 s else s);
          ds = takeWhile is_digit s1
      in if ds = [] then None
         else
           let ip = (if hd ds = CHR ''0'' then ''0'' else ds);
               s2 = drop (length ip) s1;
               fd = (if startswith s2 ''.'' then takeWhile is_digit (drop 1 s2) else []);
               frac = (if fd = [] then [] else CHR ''.'' # fd);
               s3 = drop (length frac) s2;
               sg = (if startswith (drop 1 s3) ''-'' \<or> startswith (drop 1 s3) ''+''
                     then take 1 (drop 1 s3) else []);
               ed = (if startswith s3 ''e'' \<or> startswith s3 ''E''
                     then takeWhile is_digit (drop (1 + length sg) s3) else []);
               ex = (if ed = [] then [] else take 1 s3 @ sg @ ed);
               s4 = drop (length ex) s3
           in Some (if frac = [] \<and> ex = []
                    then JInt (if neg then - digits_val ip else digits_val ip)
                    else JFloat ((if neg then ''-'' else []) @ ip @ frac @ ex),
                    s4))"

datatype token =
    TLBrace | TRBrace | TLBrack | TRBrack | TColon | TComma
  | TString string
  | TValue json
  | TBadString json_error
  | TBad

text \<open>
  The token at the head of a text that does not start with whitespace, and the
  text after it. A text that starts no token gives \<open>TBad\<close>.
\<close>

definition next_token :: "string \<Rightarrow> token \<times> string" where
  "next_token s =
     (case s of
        [] \<Rightarrow> (TBad, [])
      | c # cs \<Rightarrow>
          if c = CHR ''{'' then (TLBrace, cs)
          else if c = CHR ''}'' then (TRBrace, cs)
          else if c = CHR ''['' then (TLBrack, cs)
          else if c = CHR '']'' then (TRBrack, cs)
          else if c = CHR '':'' then (TColon, cs)
          else if c = CHR '','' then (TComma, cs)
          else if c = dquote then
            (case scan_string [] cs of
               Inl e \<Rightarrow> (TBadString e, [])
             | Inr (str, rest) \<Rightarrow> (TString str, rest))
          else if startswith s ''null'' then (TValue JNull, drop 4 s)
          else if startswith s ''true'' then (TValue (JBool True), drop 4 s)
          else if startswith s ''false'' then (TValue (JBool False), drop 5 s)
          else if startswith s ''NaN'' then (TValue (JFloat ''NaN''), drop 3 s)
          else if startswith s ''Infinity'' then (TValue (JFloat ''Infinity''), drop 8 s)
          else if startswith s ''-Infinity'' then (TValue (JFloat ''-Infinity''), drop 9 s)
          else (case scan_number s of
                  Some (v, rest) \<Rightarrow> (TValue v, rest)
                | None \<Rightarrow> (TBad, [])))"

definition json_space :: "char \<Rightarrow> bool" where
  "json_space c = (c = CHR '' '' \<or> c = CHR 0x09 \<or> c = CHR 0x0A \<or> c = CHR 0x0D)"

text \<open>
  The tokens of a text. The first argument counts the characters still to pass
  over because the token before them covers them. Nothing is read after a bad
  token.
\<close>

fun tokenize :: "nat \<Rightarrow> string \<Rightarrow> token list" where
  "tokenize k [] = []"
| "tokenize (Suc k) (c # cs) = tokenize k cs"
| "tokenize 0 (c # cs) =
     (if json_space c then tokenize 0 cs
      else
        (case next_token (c # cs) of
           (TBad, rest) \<Rightarrow> [TBad]
         | (TBadString e, rest) \<Rightarrow> [TBadString e]
         | (t, rest) \<Rightarrow> t # tokenize (length cs - length rest) cs))"

text \<open>
  Where a value under construction goes once it is complete: it is the whole
  document, the next element of a list, or the value of a key.
\<close>

datatype ctx =
    Top
  | InList "json list" ctx
  | InDict pydict string ctx

datatype pstate =
    Value ctx
  | ValueOrClose ctx
  | KeyOrClose ctx
  | Key pydict ctx
  | Colon pydict string ctx
  | ListNext "json list" ctx
  | DictNext pydict ctx
  | Done json

fun deliver :: "json \<Rightarrow> ctx \<Rightarrow> pstate" where
  "deliver v Top = Done v"
| "deliver v (InList xs c) = ListNext (xs @ [v]) c"
| "deliver v (InDict ps k c) = DictNext (dict_set k v ps) c"

fun value_token :: "ctx \<Rightarrow> token \<Rightarrow> json_error + pstate" where
  "value_token c (TString s) = Inr (deliver (JStr s) c)"
| "value_token c (TValue v) = Inr (deliver v c)"
| "value_token c TLBrack = Inr (ValueOrClose c)"
| "value_token c TLBrace = Inr (KeyOrClose c)"
| "value_token c (TBadString e) = Inl e"
| "value_token c t = Inl ExpectingValue"

fun key_token :: "pydict \<Rightarrow> ctx \<Rightarrow> token \<Rightarrow> json_error + pstate" where
  "key_token ps c (TString k) = Inr (Colon ps k c)"
| "key_token ps c (TBadString e) = Inl e"
| "key_token ps c t = Inl ExpectingPropertyName"

fun step :: "pstate \<Rightarrow> token \<Rightarrow> json_error + pstate" where
  "step (Value c) t = value_token c t"
| "step (ValueOrClose c) t =
     (if t = TRBrack then Inr (deliver (JList []) c) else value_token (InList [] c) t)"
| "step (KeyOrClose c) t =
     (if t = TRBrace then Inr (deliver (JDict []) c) else key_token [] c t)"
| "step (Key ps c) t = key_token ps c t"
| "step (Colon ps k c) t =
     (if t = TColon then Inr (Value (InDict ps k c)) else Inl ExpectingColon)"
| "step (ListNext xs c) t =
     (if t = TComma then Inr (Value (InList xs c))
      else if t = TRBrack then Inr (deliver (JList xs) c)
      else Inl ExpectingComma)"
| "step (DictNext ps c) t =
     (if t = TComma then Inr (Key ps c)
      else if t = TRBrace then Inr (deliver (JDict ps) c)
      else Inl ExpectingComma)"
| "step (Done v) t = Inl ExtraData"

fun finish :: "pstate \<Rightarrow> json_error + json" where
  "finish (Done v) = Inr v"
| "finish (Value c) = Inl ExpectingValue"
| "finish (ValueOrClose c) = Inl ExpectingValue"
| "finish (KeyOrClose c) = Inl ExpectingPropertyName"
| "finish (Key ps c) = Inl ExpectingPropertyName"
| "finish (Colon ps k c) = Inl ExpectingColon"
| "finish (ListNext xs c) = Inl ExpectingComma"
| "finish (DictNext ps c) = Inl ExpectingComma"

fun parse_tokens :: "pstate \<Rightarrow> token list \<Rightarrow> json_error + json" where
  "parse_tokens st [] = finish st"
| "parse_tokens st (t # ts) =
     (case step st t of Inl e \<Rightarrow> Inl e | Inr st' \<Rightarrow> parse_tokens st' ts)"

text \<open>\<^verbatim>\<open>json.loads(s)\<close> on text: the value, or \<^verbatim>\<open>JSONDecodeError\<close>.\<close>

definition json_loads :: "string \<Rightarrow> exn + json" where
  "json_loads s =
     (if startswith s [CHR 0xEF, CHR 0xBB, CHR 0xBF] then Inl (JSONDecodeError UnexpectedBOM)
      else
        (case parse_tokens (Value Top) (tokenize 0 s) of
           Inl e \<Rightarrow> Inl (JSONDecodeError e)
         | Inr v \<Rightarrow> Inr v))"

section \<open>The repair pass\<close>

text \<open>
  The class \<^verbatim>\<open>\w\<close>: letters, digits and the underscore. On text outside ASCII
  the library's class also holds the letters and digits of other scripts; that
  table is not part of the repository, and \<open>is_word\<close> is its ASCII part.
\<close>

definition is_word :: "char \<Rightarrow> bool" where
  "is_word c =
     (let n = (of_char c :: nat) in
      (48 \<le> n \<and> n \<le> 57) \<or> (65 \<le> n \<and> n \<le> 90) \<or> (97 \<le> n \<and> n \<le> 122) \<or> n = 95)"

text \<open>
  A match of \<^verbatim>\<open>([{,])\s*(\w+):\<close> at the head of the text: its length and its
  second group. After the brace or comma the pattern takes all the whitespace,
  then all the word characters (at least one), then needs a colon; the two
  classes are disjoint and a colon is in neither, so giving characters back
  never finds another match.
\<close>

definition key_match :: "string \<Rightarrow> (nat \<times> string) option" where
  "key_match s =
     (case s of
        [] \<Rightarrow> None
      | c # cs \<Rightarrow>
          if c = CHR ''{'' \<or> c = CHR '','' then
            (let r = lstrip cs;
                 w = takeWhile is_word r;
                 t = dropWhile is_word r
             in if w \<noteq> [] \<and> startswith t '':'' then Some (length s - length t + 1, w)
                else None)
          else None)"

text \<open>
  \<^verbatim>\<open>re.sub(r'([{,])\s*(\w+):', r'\1"\2":', json_str)\<close>: matches are replaced from
  left to right and do not overlap. The first argument counts the characters
  still covered by the match just replaced.
\<close>

fun quote_keys :: "nat \<Rightarrow> string \<Rightarrow> string" where
  "quote_keys k [] = []"
| "quote_keys (Suc k) (c # cs) = quote_keys k cs"
| "quote_keys 0 (c # cs) =
     (case key_match (c # cs) of
        Some (n, w) \<Rightarrow> c # dquote # w @ [dquote, CHR '':''] @ quote_keys (n - 1) cs
      | None \<Rightarrow> c # quote_keys 0 cs)"

text \<open>\<^verbatim>\<open>json_str.replace("'", '"')\<close>\<close>

definition replace_single_quotes :: "string \<Rightarrow> string" where
  "replace_single_quotes s = map (\<lambda>c. if c = CHR 0x27 then dquote else c) s"

text \<open>
  The lookahead \<^verbatim>\<open>(?=(.*?".*?)*?$)\<close> on the text after a double quote. A dot
  matches any character but a line feed, and \<^verbatim>\<open>$\<close> matches at the end of the text
  or before a line feed that ends it. So the rest of the text, less one final
  line feed, is empty, or has no line feed and holds another double quote.
\<close>

definition quote_lookahead :: "string \<Rightarrow> bool" where
  "quote_lookahead rest =
     (let body = (if rest \<noteq> [] \<and> last rest = newline then butlast rest else rest)
      in body = [] \<or> (newline \<notin> set body \<and> dquote \<in> set body))"

text \<open>
  \<^verbatim>\<open>re.sub(r'(?<!\\)"(?=(.*?".*?)*?$)', r'\"', json_str)\<close>: a double quote that
  no backslash precedes and that passes the lookahead becomes a backslash and a
  double quote (the template's \<^verbatim>\<open>\"\<close> is no known escape and stays as written).
  The first argument tells whether the character before is a backslash.
\<close>

fun escape_quotes :: "bool \<Rightarrow> string \<Rightarrow> string" where
  "escape_quotes prev [] = []"
| "escape_quotes prev (c # cs) =
     (if c = dquote \<and> \<not> prev \<and> quote_lookahead cs then [bslash, dquote] else [c])
     @ escape_quotes (c = bslash) cs"

definition fix_json_string :: "string \<Rightarrow> string" where
  "fix_json_string json_str =
     escape_quotes False (replace_single_quotes (quote_keys 0 json_str))"

section \<open>The environment and the state\<close>

text \<open>
  What the code gets from outside the repository:
  \<^item> \<open>remote k\<close>: the outcome of the \<open>k\<close>-th call of \<^verbatim>\<open>requests.post\<close> (counted
    from 0) up to the point where the answer's text is at hand: that text, or
    the exception raised on the way;
  \<^item> \<open>str_exc\<close>: \<^verbatim>\<open>str(e)\<close> of an exception;
  \<^item> \<open>py_str\<close>: \<^verbatim>\<open>str(v)\<close> of a value that is not text;
  \<^item> \<open>now k\<close>: the \<open>k\<close>-th reading of the clock, formatted.
\<close>

record env =
  remote :: "nat \<Rightarrow> exn + string"
  str_exc :: "exn \<Rightarrow> string"
  py_str :: "json \<Rightarrow> string"
  now :: "nat \<Rightarrow> string"

text \<open>
  A delimited file is the list of its records, each a list of cells; the first
  record is the header. Quoting of cells on disk is not modelled.
\<close>

type_synonym csv_file = "string list list"

text \<open>
  The state the code changes: the number of requests sent, the arguments of
  \<^verbatim>\<open>time.sleep\<close> in order, the results file and the error log (\<open>None\<close>: no
  such file), the number of clock readings, and the names
  \<open>get_info_from_perplexity\<close> was called with, in order (a record of the calls
  for the statements about the batch; the code keeps no such list).
\<close>

record world =
  requests :: nat
  sleeps :: "nat list"
  results_csv :: "csv_file option"
  error_log :: "csv_file option"
  clock_reads :: nat
  lookups :: "string list"

section \<open>The acquisition client\<close>

text \<open>
  \<open>get_info_from_perplexity\<close> of \<^verbatim>\<open>utils/perplexity_api.py\<close>. The request itself
  (the cleaned name, the prompt, the headers) only reaches the service, whose
  answer is the environment's \<open>remote\<close>; it is not modelled.
\<close>

definition max_retries :: nat where
  "max_retries = 3"

text \<open>\<^verbatim>\<open>data["Project Name"] = original_name\<close> on whatever the reader returned.\<close>

definition item_assign :: "json \<Rightarrow> string \<Rightarrow> json \<Rightarrow> exn + pydict" where
  "item_assign data k v = (case data of JDict d \<Rightarrow> Inr (dict_set k v d) | _ \<Rightarrow> Inl TypeError)"

text \<open>The inner \<^verbatim>\<open>try\<close>: a second reading, of the repaired text, when the first fails.\<close>

definition loads_with_repair :: "string \<Rightarrow> exn + json" where
  "loads_with_repair content =
     (case json_loads content of
        Inl (JSONDecodeError e) \<Rightarrow> json_loads (fix_json_string content)
      | r \<Rightarrow> r)"

text \<open>\<^verbatim>\<open>for key in get_required_fields(): d.setdefault(key, "Information not available")\<close>\<close>

definition fill_required :: "pydict \<Rightarrow> pydict" where
  "fill_required d = foldl (\<lambda>d key. setdefault key (JStr sentinel) d) d get_required_fields"

text \<open>
  The answer's text as it is handed to the reader: stripped, and when it starts
  with a code fence, stripped of backticks at both ends and stripped again.
\<close>

definition answer_text :: "string \<Rightarrow> string" where
  "answer_text raw =
     (let content = strip raw
      in if startswith content ''```'' then strip (strip_chars ''`'' content) else content)"

text \<open>The body of the outer \<^verbatim>\<open>try\<close>, given the outcome of the request.\<close>

definition try_body :: "string \<Rightarrow> exn + string \<Rightarrow> exn + pydict" where
  "try_body original_name resp =
     (case resp of
        Inl e \<Rightarrow> Inl e
      | Inr raw \<Rightarrow>
          (case loads_with_repair (answer_text raw) of
             Inl e \<Rightarrow> Inl e
           | Inr data \<Rightarrow>
               (case item_assign data ''Project Name'' (JStr original_name) of
                  Inl e \<Rightarrow> Inl e
                | Inr d \<Rightarrow> Inr (fill_required d))))"

definition fallback_record :: "env \<Rightarrow> string \<Rightarrow> exn \<Rightarrow> pydict" where
  "fallback_record E original_name e =
     fill_required
       [(''Project Name'', JStr original_name),
        (''error'', JStr (str_exc E e)),
        (''Source URLs'', JList [])]"

text \<open>
  The loop \<^verbatim>\<open>for attempt in range(max_retries)\<close>. A loop that ends without
  \<^verbatim>\<open>return\<close> makes the function return Python's \<^verbatim>\<open>None\<close>, here \<open>None\<close>.
\<close>

fun attempts :: "env \<Rightarrow> string \<Rightarrow> nat list \<Rightarrow> nat \<Rightarrow> world \<Rightarrow> pydict option \<times> world" where
  "attempts E original_name [] retry_delay w = (None, w)"
| "attempts E original_name (attempt # rest) retry_delay w =
     (let w1 = w\<lparr>requests := Suc (requests w)\<rparr> in
      case try_body original_name (remote E (requests w)) of
        Inr data \<Rightarrow> (Some data, w1)
      | Inl e \<Rightarrow>
          if attempt < max_retries - 1
          then attempts E original_name rest (retry_delay * 2)
                 (w1\<lparr>sleeps := sleeps w1 @ [retry_delay]\<rparr>)
          else (Some (fallback_record E original_name e), w1))"

definition get_info_from_perplexity :: "env \<Rightarrow> string \<Rightarrow> world \<Rightarrow> pydict option \<times> world" where
  "get_info_from_perplexity E project_name w =
     attempts E project_name [0..<max_retries] 5 (w\<lparr>lookups := lookups w @ [project_name]\<rparr>)"

section \<open>The tabular store\<close>

text \<open>
  What \<^verbatim>\<open>pandas.read_csv\<close> makes of a file: the header's names and the data
  records, each as long as the header. Blank lines (records without a cell) are
  passed over. A file with nothing else is refused, a record longer than the
  header is refused, a shorter one is filled with missing values, which
  \<^verbatim>\<open>to_csv\<close> writes as empty cells. The library's typing of cell text and its
  renaming of repeated header names are not modelled: a cell is read as it was
  written.
\<close>

record dataframe =
  columns :: "string list"
  data :: "string list list"

definition read_csv :: "csv_file \<Rightarrow> exn + dataframe" where
  "read_csv f =
     (case filter (\<lambda>r. r \<noteq> []) f of
        [] \<Rightarrow> Inl EmptyDataError
      | h # rs \<Rightarrow>
          if list_ex (\<lambda>r. length h < length r) rs then Inl ParserError
          else Inr \<lparr>columns = h,
                    data = map (\<lambda>r. r @ replicate (length h - length r) []) rs\<rparr>)"

text \<open>\<^verbatim>\<open>df.to_csv(path, index=False)\<close>\<close>

definition to_csv :: "dataframe \<Rightarrow> csv_file" where
  "to_csv df = columns df # data df"

text \<open>\<^verbatim>\<open>df[col] = value\<close>: a new column goes last, a present one is overwritten.\<close>

definition set_column :: "string \<Rightarrow> string \<Rightarrow> dataframe \<Rightarrow> dataframe" where
  "set_column col v df =
     (if col \<in> set (columns df)
      then df\<lparr>data := map (\<lambda>r. map (\<lambda>(c, x). if c = col then v else x) (zip (columns df) r))
                          (data df)\<rparr>
      else df\<lparr>columns := columns df @ [col], data := map (\<lambda>r. r @ [v]) (data df)\<rparr>)"

text \<open>
  \<^verbatim>\<open>ensure_csv_structure(path)\<close> on the file at the path (\<open>None\<close>: no file
  there); directories are not modelled. The result is the file afterwards.
\<close>

definition ensure_csv_structure :: "csv_file option \<Rightarrow> exn + csv_file option" where
  "ensure_csv_structure file =
     (let required = get_required_fields in
      case file of
        None \<Rightarrow> Inr (Some [required])
      | Some f \<Rightarrow>
          (case read_csv f of
             Inl e \<Rightarrow> Inl e
           | Inr df \<Rightarrow>
               (let missing = filter (\<lambda>c. c \<notin> set (columns df)) required in
                if missing \<noteq> []
                then Inr (Some (to_csv (foldl (\<lambda>df col. set_column col sentinel df) df missing)))
                else Inr (Some f))))"

text \<open>\<^verbatim>\<open>sep.join(parts)\<close>\<close>

fun join :: "string \<Rightarrow> string list \<Rightarrow> string" where
  "join sep [] = []"
| "join sep [x] = x"
| "join sep (x # y # r) = x @ sep @ join sep (y # r)"

text \<open>\<^verbatim>\<open>str(v)\<close>: text is itself, anything else is the environment's.\<close>

definition str_of :: "env \<Rightarrow> json \<Rightarrow> string" where
  "str_of E v = (case v of JStr s \<Rightarrow> s | _ \<Rightarrow> py_str E v)"

definition flatten_value :: "env \<Rightarrow> json \<Rightarrow> string" where
  "flatten_value E v =
     (case v of
        JDict d \<Rightarrow> join '', '' (map (\<lambda>(k, v). k @ '': '' @ str_of E v) d)
      | JList xs \<Rightarrow> join '', '' (map (str_of E) xs)
      | _ \<Rightarrow> str_of E v)"

text \<open>\<^verbatim>\<open>_flatten(row)\<close>\<close>

definition flatten :: "env \<Rightarrow> pydict \<Rightarrow> (string \<times> string) list" where
  "flatten E row =
     map (\<lambda>key. (key, flatten_value E (dict_get row key (JStr sentinel)))) get_required_fields"

text \<open>
  \<^verbatim>\<open>csv.DictWriter(fh, fieldnames=...).writerow(rowdict)\<close>: the record written,
  with an empty cell for a field name the dictionary lacks; a key that is no
  field name is refused.
\<close>

definition writerow :: "string list \<Rightarrow> (string \<times> string) list \<Rightarrow> exn + string list" where
  "writerow fieldnames rowdict =
     (if list_ex (\<lambda>k. k \<notin> set fieldnames) (map fst rowdict) then Inl ValueError
      else Inr (map (\<lambda>k. case map_of rowdict k of None \<Rightarrow> [] | Some v \<Rightarrow> v) fieldnames))"

text \<open>Writing one record to a file opened in append mode, which creates it if absent.\<close>

definition append_record :: "string list \<Rightarrow> csv_file option \<Rightarrow> csv_file option" where
  "append_record cells file = Some ((case file of None \<Rightarrow> [] | Some f \<Rightarrow> f) @ [cells])"

text \<open>\<^verbatim>\<open>write_to_csv(row, path)\<close> on the file at the path.\<close>

definition write_to_csv :: "env \<Rightarrow> pydict \<Rightarrow> csv_file option \<Rightarrow> exn + csv_file option" where
  "write_to_csv E row file =
     (case ensure_csv_structure file of
        Inl e \<Rightarrow> Inl e
      | Inr file' \<Rightarrow>
          (case writerow get_required_fields (flatten E row) of
             Inl e \<Rightarrow> Inl e
           | Inr cells \<Rightarrow> Inr (append_record cells file')))"

text \<open>A cell the writer is given as a value: \<^verbatim>\<open>None\<close> is written empty.\<close>

definition csv_cell :: "env \<Rightarrow> json \<Rightarrow> string" where
  "csv_cell E v = (case v of JNull \<Rightarrow> [] | _ \<Rightarrow> str_of E v)"

text \<open>\<^verbatim>\<open>write_error_log(project_name, message)\<close>, on the log at its default path.\<close>

definition write_error_log :: "env \<Rightarrow> string \<Rightarrow> json \<Rightarrow> world \<Rightarrow> world" where
  "write_error_log E project_name message w =
     (let entry = [project_name, csv_cell E message, now E (clock_reads w)];
          log = (case error_log w of
                   None \<Rightarrow> [[''Project Name'', ''Error Message'', ''Timestamp''], entry]
                 | Some f \<Rightarrow> f @ [entry])
      in w\<lparr>error_log := Some log, clock_reads := Suc (clock_reads w)\<rparr>)"

section \<open>The orchestrator\<close>

record presult =
  status :: string
  message :: "json option"
  pdata :: pydict

text \<open>
  The minimal record \<open>process_single_project\<close> builds itself when it has no
  dictionary to save.
\<close>

definition fallback_data :: "string \<Rightarrow> string \<Rightarrow> pydict" where
  "fallback_data project_name error_msg =
     fill_required [(''Project Name'', JStr project_name), (''error'', JStr error_msg)]"

text \<open>
  The body of the \<^verbatim>\<open>try\<close> of \<open>process_single_project\<close> after the lookup, on
  what the lookup returned (\<open>None\<close>: not a dictionary). An exception leaves
  with the state reached.
\<close>

definition save_response :: "env \<Rightarrow> string \<Rightarrow> pydict option \<Rightarrow> world \<Rightarrow> (exn + presult) \<times> world" where
  "save_response E project_name response w =
     (case response of
        Some d \<Rightarrow>
          (let has_error = has_key d ''error'' in
           case write_to_csv E d (results_csv w) of
             Inl e \<Rightarrow> (Inl e, w)
           | Inr file \<Rightarrow>
               (let w1 = w\<lparr>results_csv := file\<rparr> in
                if has_error then
                  (let error_msg = dict_get d ''error'' (JStr ''Unknown error'')
                   in (Inr \<lparr>status = ''partial'', message = Some error_msg, pdata = d\<rparr>,
                       write_error_log E project_name error_msg w1))
                else (Inr \<lparr>status = ''success'', message = None, pdata = d\<rparr>, w1)))
      | None \<Rightarrow>
          (let error_msg = ''None'';
               w1 = write_error_log E project_name (JStr error_msg) w;
               fb = fallback_data project_name error_msg
           in case write_to_csv E fb (results_csv w1) of
                Inl e \<Rightarrow> (Inl e, w1)
              | Inr file \<Rightarrow>
                  (Inr \<lparr>status = ''error'', message = Some (JStr error_msg), pdata = fb\<rparr>,
                   w1\<lparr>results_csv := file\<rparr>)))"

text \<open>The \<^verbatim>\<open>except Exception\<close> branch of \<open>process_single_project\<close>.\<close>

definition handle_exception :: "env \<Rightarrow> string \<Rightarrow> exn \<Rightarrow> world \<Rightarrow> (exn + presult) \<times> world" where
  "handle_exception E project_name e w =
     (let error_msg = str_exc E e;
          w1 = write_error_log E project_name (JStr error_msg) w;
          fb = fallback_data project_name error_msg
      in case write_to_csv E fb (results_csv w1) of
           Inl e' \<Rightarrow> (Inl e', w1)
         | Inr file \<Rightarrow>
             (Inr \<lparr>status = ''error'', message = Some (JStr error_msg), pdata = fb\<rparr>,
              w1\<lparr>results_csv := file\<rparr>))"

text \<open>
  \<^verbatim>\<open>process_single_project(project_name, results_csv)\<close>; the results file is
  the one of the state. The user interface calls have no part in the model.
\<close>

definition process_single_project :: "env \<Rightarrow> string \<Rightarrow> world \<Rightarrow> (exn + presult) \<times> world" where
  "process_single_project E project_name w =
     (case get_info_from_perplexity E project_name w of
        (response, w1) \<Rightarrow>
          (case save_response E project_name response w1 of
             (Inr r, w2) \<Rightarrow> (Inr r, w2)
           | (Inl e, w2) \<Rightarrow> handle_exception E project_name e w2))"

record summary =
  success :: nat
  partial :: nat
  failed :: nat
  details :: "(string \<times> string \<times> json) list"

text \<open>
  One round of the loop of \<open>process_project_list\<close> for a name that is not
  skipped: the counters and the detail entry.
\<close>

definition tally :: "string \<Rightarrow> presult \<Rightarrow> summary \<Rightarrow> summary" where
  "tally project_name result results =
     (let results1 =
            (if status result = ''success'' then results\<lparr>success := success results + 1\<rparr>
             else if status result = ''partial'' then results\<lparr>partial := partial results + 1\<rparr>
             else results\<lparr>failed := failed results + 1\<rparr>)
      in results1\<lparr>details := details results1 @
           [(project_name, status result,
             (case message result of None \<Rightarrow> JStr ''Success'' | Some m \<Rightarrow> m))]\<rparr>)"

text \<open>The loop \<^verbatim>\<open>for i, project_name in enumerate(project_names)\<close>.\<close>

fun process_loop :: "env \<Rightarrow> string list \<Rightarrow> summary \<Rightarrow> world \<Rightarrow> (exn + summary) \<times> world" where
  "process_loop E [] results w = (Inr results, w)"
| "process_loop E (name # names) results w =
     (let project_name = strip name in
      if project_name = [] then process_loop E names results w
      else
        (case process_single_project E project_name w of
           (Inl e, w1) \<Rightarrow> (Inl e, w1)
         | (Inr result, w1) \<Rightarrow>
             process_loop E names (tally project_name result results)
               (w1\<lparr>sleeps := sleeps w1 @ [1]\<rparr>)))"

definition process_project_list :: "env \<Rightarrow> string list \<Rightarrow> world \<Rightarrow> (exn + summary) \<times> world" where
  "process_project_list E project_names w =
     (let results = \<lparr>success = 0, partial = 0, failed = 0, details = []\<rparr> in
      case ensure_csv_structure (results_csv w) of
        Inl e \<Rightarrow> (Inl e, w)
      | Inr file \<Rightarrow> process_loop E project_names results (w\<lparr>results_csv := file\<rparr>))"

section \<open>Scenarios\<close>

text \<open>
  Concrete environments and states for the scenarios of the specification. In
  \<open>timeout_env\<close> every request times out; in \<open>answering_env\<close> every request is
  answered with the given text.
\<close>

definition quoted :: "string \<Rightarrow> string" where
  "quoted s = dquote # s @ [dquote]"

definition describe :: "exn \<Rightarrow> string" where
  "describe e = (case e of RequestError m \<Rightarrow> m | _ \<Rightarrow> ''error'')"

definition timeout_env :: env where
  "timeout_env =
     \<lparr>remote = (\<lambda>k. Inl (RequestError ''Read timed out'')),
      str_exc = describe,
      py_str = (\<lambda>v. ''?''),
      now = (\<lambda>k. ''2025-01-01 00:00:00'')\<rparr>"


definition fresh_world :: world where
  "fresh_world =
     \<lparr>requests = 0, sleeps = [], results_csv = None, error_log = None,
      clock_reads = 0, lookups = []\<rparr>"

text \<open>
  Three answers of the service: the partial answer of the specification's
  scenario, \<^verbatim>\<open>{"Project Name": "X", "Location": "Hyderabad"}\<close>; an object
  written on one line with single quotes; and one with a bare key.
\<close>

definition green_meadows_answer :: string where
  "green_meadows_answer =
     ''{'' @ quoted ''Project Name'' @ '': '' @ quoted ''X'' @ '', ''
         @ quoted ''Location'' @ '': '' @ quoted ''Hyderabad'' @ ''}''"

definition single_quoted_answer :: string where
  "single_quoted_answer = ''{'a': 'b'}''"

definition bare_key_answer :: string where
  "bare_key_answer = ''{a: 1}''"

text \<open>
  An environment in which the first request is answered with the partial
  answer and every later request times out.
\<close>

definition mixed_env :: env where
  "mixed_env =
     timeout_env\<lparr>remote :=
       (\<lambda>k. if k = 0 then Inr green_meadows_answer else Inl (RequestError ''Read timed out''))\<rparr>"

section \<open>Dictionaries: keys and lookups\<close>

lemma has_key_iff: "has_key d k \<longleftrightarrow> k \<in> fst ` set d"
  by (simp add: has_key_def map_of_eq_None_iff)

lemma keys_setdefault: "fst ` set (setdefault k v d) = insert k (fst ` set d)"
  by (auto simp: setdefault_def has_key_iff)

lemma keys_fill: "fst ` set (foldl (\<lambda>d key. setdefault key v d) d ks) = fst ` set d \<union> set ks"
  by (induction ks arbitrary: d) (auto simp: keys_setdefault)

lemma keys_fill_required: "fst ` set (fill_required d) = fst ` set d \<union> set get_required_fields"
  unfolding fill_required_def by (rule keys_fill)




section \<open>The acquisition client: what it returns\<close>

lemma try_body_filled: "try_body n resp = Inr d \<Longrightarrow> \<exists>d0. d = fill_required d0"
  by (auto simp: try_body_def split: sum.splits)

lemma range_max_retries: "[0..<max_retries] = [0, 1, 2]"
  by (simp add: max_retries_def numeral_3_eq_3 numeral_2_eq_2)

lemma get_info_filled:
  "\<exists>d0. fst (get_info_from_perplexity E n w) = Some (fill_required d0)"
  unfolding get_info_from_perplexity_def range_max_retries
  by (auto simp: max_retries_def fallback_record_def Let_def split: sum.splits
      dest: try_body_filled)

lemma fallback_record_eq:
  "fallback_record E n e =
    [(''Project Name'', JStr n),
     (''error'', JStr (str_exc E e)),
     (''Source URLs'', JList []),
     (''Project Price per SFT'', JStr sentinel),
     (''total Price'', JStr sentinel),
     (''Possession (Year & Month)'', JStr sentinel),
     (''Location'', JStr sentinel),
     (''Builder Reputation & Legal Compliance'', JStr sentinel),
     (''Property Type & Space Utilization'', JStr sentinel),
     (''Open Space'', JStr sentinel),
     (''Safety & Security'', JStr sentinel),
     (''Quality of Construction'', JStr sentinel),
     (''Home Loan & Financing Options'', JStr sentinel),
     (''Orientation'', JStr sentinel),
     (''Configuration (2BHK, 3BHK, etc.)'', JStr sentinel),
     (''Why'', JStr sentinel)]"
  by code_simp

text \<open>
  Claim C1. Whatever the name, the state and the outcomes of the requests
  (answer read at once, answer read after repair, or all attempts failed),
  \<open>get_info_from_perplexity\<close> returns a dictionary, and every one of the fifteen
  names of the field schema is a key of it.
\<close>

theorem C1_record_has_every_field:
  "\<exists>d. fst (get_info_from_perplexity E project_name w) = Some d
       \<and> set get_required_fields \<subseteq> set (map fst d)
       \<and> length get_required_fields = 15"
proof -
  obtain d0 where "fst (get_info_from_perplexity E project_name w) = Some (fill_required d0)"
    using get_info_filled by blast
  moreover have "set get_required_fields \<subseteq> set (map fst (fill_required d0))"
    using keys_fill_required [of d0] by auto
  moreover have "length get_required_fields = 15"
    by (simp add: get_required_fields_def)
  ultimately show ?thesis by blast
qed

text \<open>
  Claim C2. The client is a total function: it raises nothing (C1 shows that it
  always returns a dictionary). When each of the three attempts ends in an
  exception, whether raised by the request or by the reading of the answer, the
  client returns the fallback record: the project name is the name it was
  called with, the error field is the description of the exception of the last
  attempt, the source URLs are the empty list, and the thirteen other fields of
  the schema are the sentinel. Three requests were sent, and between them the
  client slept 5 and then 10.
\<close>

theorem C2_fallback_after_three_failures:
  assumes "try_body project_name (remote E (requests w)) = Inl e0"
    and "try_body project_name (remote E (requests w + 1)) = Inl e1"
    and "try_body project_name (remote E (requests w + 2)) = Inl e2"
  shows "get_info_from_perplexity E project_name w =
     (Some
       [(''Project Name'', JStr project_name),
        (''error'', JStr (str_exc E e2)),
        (''Source URLs'', JList []),
        (''Project Price per SFT'', JStr ''Information not available''),
        (''total Price'', JStr ''Information not available''),
        (''Possession (Year & Month)'', JStr ''Information not available''),
        (''Location'', JStr ''Information not available''),
        (''Builder Reputation & Legal Compliance'', JStr ''Information not available''),
        (''Property Type & Space Utilization'', JStr ''Information not available''),
        (''Open Space'', JStr ''Information not available''),
        (''Safety & Security'', JStr ''Information not available''),
        (''Quality of Construction'', JStr ''Information not available''),
        (''Home Loan & Financing Options'', JStr ''Information not available''),
        (''Orientation'', JStr ''Information not available''),
        (''Configuration (2BHK, 3BHK, etc.)'', JStr ''Information not available''),
        (''Why'', JStr ''Information not available'')],
      w\<lparr>requests := requests w + 3, sleeps := sleeps w @ [5, 10],
        lookups := lookups w @ [project_name]\<rparr>)"
  using assms unfolding get_info_from_perplexity_def range_max_retries
  by (simp add: max_retries_def Let_def fallback_record_eq sentinel_def)

theorem C2_witness_lake_vista:
  "get_info_from_perplexity timeout_env ''Lake Vista'' fresh_world =
     (Some
       [(''Project Name'', JStr ''Lake Vista''),
        (''error'', JStr ''Read timed out''),
        (''Source URLs'', JList []),
        (''Project Price per SFT'', JStr ''Information not available''),
        (''total Price'', JStr ''Information not available''),
        (''Possession (Year & Month)'', JStr ''Information not available''),
        (''Location'', JStr ''Information not available''),
        (''Builder Reputation & Legal Compliance'', JStr ''Information not available''),
        (''Property Type & Space Utilization'', JStr ''Information not available''),
        (''Open Space'', JStr ''Information not available''),
        (''Safety & Security'', JStr ''Information not available''),
        (''Quality of Construction'', JStr ''Information not available''),
        (''Home Loan & Financing Options'', JStr ''Information not available''),
        (''Orientation'', JStr ''Information not available''),
        (''Configuration (2BHK, 3BHK, etc.)'', JStr ''Information not available''),
        (''Why'', JStr ''Information not available'')],
      fresh_world\<lparr>requests := 3, sleeps := [5, 10], lookups := [''Lake Vista'']\<rparr>)"
proof -
  have h: "try_body ''Lake Vista'' (remote timeout_env k) = Inl (RequestError ''Read timed out'')"
    for k
    by (simp add: try_body_def timeout_env_def)
  show ?thesis
    using C2_fallback_after_three_failures [of "''Lake Vista''" timeout_env fresh_world, OF h h h]
    by (simp add: timeout_env_def describe_def fresh_world_def)
qed

section \<open>The tabular store: flattening and writing\<close>


definition cells :: "env \<Rightarrow> pydict \<Rightarrow> string list" where
  "cells E row = map snd (flatten E row)"

definition rect :: "dataframe \<Rightarrow> bool" where
  "rect df = list_all (\<lambda>r. length r = length (columns df)) (data df)"

definition good :: "csv_file \<Rightarrow> bool" where
  "good f = (case read_csv f of Inl e \<Rightarrow> False
             | Inr df \<Rightarrow> set get_required_fields \<subseteq> set (columns df))"

definition legacy_header :: "string list" where
  "legacy_header = filter (\<lambda>c. c \<noteq> ''Open Space'') get_required_fields"

definition legacy_table :: csv_file where
  "legacy_table = [legacy_header, map (\<lambda>c. ''old '' @ c) legacy_header]"

definition sample_record :: pydict where
  "sample_record = map (\<lambda>k. (k, JStr (''new '' @ k))) get_required_fields"

definition repaired_table :: csv_file where
  "repaired_table = [legacy_header @ [''Open Space''],
                     map (\<lambda>c. ''old '' @ c) legacy_header @ [sentinel]]"

lemma map_of_tabulate:
  "map_of (map (\<lambda>k. (k, f k)) ks) k = (if k \<in> set ks then Some (f k) else None)"
  by (induction ks) auto

lemma flatten_keys: "map fst (flatten E row) = get_required_fields"
  by (simp add: flatten_def comp_def)

lemma writerow_flatten:
  "writerow get_required_fields (flatten E row) = Inr (map snd (flatten E row))"
proof -
  have "\<not> list_ex (\<lambda>k. k \<notin> set get_required_fields) (map fst (flatten E row))"
    by (simp add: flatten_keys list_ex_iff)
  moreover have "map (\<lambda>k. case map_of (flatten E row) k of None \<Rightarrow> [] | Some v \<Rightarrow> v)
      get_required_fields = map snd (flatten E row)"
    by (simp add: flatten_def map_of_tabulate comp_def)
  ultimately show ?thesis by (simp add: writerow_def)
qed

lemma write_to_csv_eq:
  "ensure_csv_structure file = Inr file' \<Longrightarrow>
   write_to_csv E row file = Inr (append_record (map snd (flatten E row)) file')"
  by (simp add: write_to_csv_def writerow_flatten)

lemma length_required: "length get_required_fields = 15"
  by (simp add: get_required_fields_def)

lemma distinct_required: "distinct get_required_fields"
  by (simp add: get_required_fields_def)

lemma read_csv_rect: "read_csv f = Inr df \<Longrightarrow> rect df \<and> columns df \<noteq> []"
proof -
  assume a: "read_csv f = Inr df"
  then obtain h rs where hrs: "filter (\<lambda>r. r \<noteq> []) f = h # rs"
    and nl: "\<not> list_ex (\<lambda>r. length h < length r) rs"
    and df: "df = \<lparr>columns = h, data = map (\<lambda>r. r @ replicate (length h - length r) []) rs\<rparr>"
    by (auto simp: read_csv_def split: list.splits if_splits)
  have "h \<in> set (filter (\<lambda>r. r \<noteq> []) f)" using hrs by simp
  then have "h \<noteq> []" by simp
  moreover have "rect df"
    using nl unfolding df rect_def list_all_iff list_ex_iff by auto
  ultimately show ?thesis using df by simp
qed

lemma read_to_csv: "rect df \<Longrightarrow> columns df \<noteq> [] \<Longrightarrow> read_csv (to_csv df) = Inr df"
proof -
  assume r: "rect df" and c: "columns df \<noteq> []"
  have 1: "filter (\<lambda>r. r \<noteq> []) (data df) = data df"
    using r c by (auto simp: rect_def list_all_iff filter_id_conv)
  have 2: "\<not> list_ex (\<lambda>r. length (columns df) < length r) (data df)"
    using r by (auto simp: rect_def list_all_iff list_ex_iff)
  have 3: "map (\<lambda>r. r @ replicate (length (columns df) - length r) []) (data df) = data df"
    using r by (auto simp: rect_def list_all_iff map_idI)
  show ?thesis
    using c by (simp add: read_csv_def to_csv_def 1 2 3)
qed

lemma set_column_rect: "rect df \<Longrightarrow> rect (set_column c v df)"
  by (auto simp: rect_def set_column_def list_all_iff)

lemma set_column_columns: "set (columns (set_column c v df)) = insert c (set (columns df))"
  by (auto simp: set_column_def)

lemma set_column_nonempty: "columns (set_column c v df) \<noteq> []"
  by (auto simp: set_column_def)

lemma fold_set_column:
  "rect df \<Longrightarrow> rect (foldl (\<lambda>df col. set_column col v df) df cs)
     \<and> set (columns (foldl (\<lambda>df col. set_column col v df) df cs)) = set (columns df) \<union> set cs
     \<and> (columns df \<noteq> [] \<longrightarrow> columns (foldl (\<lambda>df col. set_column col v df) df cs) \<noteq> [])"
proof (induction cs arbitrary: df)
  case Nil
  then show ?case by simp
next
  case (Cons c cs)
  have "rect (set_column c v df)" using Cons.prems by (rule set_column_rect)
  from Cons.IH [OF this] show ?case
    by (auto simp: set_column_columns set_column_nonempty)
qed

lemma good_stable: "good f \<Longrightarrow> ensure_csv_structure (Some f) = Inr (Some f)"
  by (auto simp: good_def ensure_csv_structure_def Let_def filter_empty_conv split: sum.splits)

lemma ensure_good: "ensure_csv_structure file = Inr file' \<Longrightarrow> \<exists>f. file' = Some f \<and> good f"
proof (cases "file")
  case None
  assume "ensure_csv_structure file = Inr file'"
  with None have "file' = Some [get_required_fields]"
    by (simp add: ensure_csv_structure_def)
  moreover have "good [get_required_fields]"
    by (simp add: good_def read_csv_def get_required_fields_def)
  ultimately show ?thesis by blast
next
  case (Some f)
  assume e: "ensure_csv_structure file = Inr file'"
  then obtain df where df: "read_csv f = Inr df"
    using Some by (auto simp: ensure_csv_structure_def split: sum.splits)
  let ?missing = "filter (\<lambda>c. c \<notin> set (columns df)) get_required_fields"
  show ?thesis
  proof (cases "?missing = []")
    case True
    then have "file' = Some f" using e Some df by (simp add: ensure_csv_structure_def)
    moreover have "good f" using True df by (auto simp: good_def filter_empty_conv)
    ultimately show ?thesis by blast
  next
    case False
    let ?df' = "foldl (\<lambda>df col. set_column col sentinel df) df ?missing"
    have f': "file' = Some (to_csv ?df')"
      using False e Some df by (simp add: ensure_csv_structure_def Let_def)
    have r: "rect df" "columns df \<noteq> []" using read_csv_rect [OF df] by auto
    have p: "rect ?df'" "set (columns ?df') = set (columns df) \<union> set ?missing" "columns ?df' \<noteq> []"
      using fold_set_column [OF r(1), of sentinel ?missing] r(2) by auto
    have "read_csv (to_csv ?df') = Inr ?df'" using p by (simp add: read_to_csv)
    moreover have "set get_required_fields \<subseteq> set (columns ?df')"
      unfolding p(2) by auto
    ultimately have "good (to_csv ?df')" by (simp add: good_def)
    with f' show ?thesis by blast
  qed
qed

lemma good_append: "good f \<Longrightarrow> length cs = 15 \<Longrightarrow> good (f @ [cs])"
proof -
  assume g: "good f" and l: "length cs = 15"
  from g obtain df where df: "read_csv f = Inr df" and sub: "set get_required_fields \<subseteq> set (columns df)"
    by (auto simp: good_def split: sum.splits)
  from df obtain h rs where hrs: "filter (\<lambda>r. r \<noteq> []) f = h # rs" and h: "columns df = h"
     and nl: "\<not> list_ex (\<lambda>r. length h < length r) rs"
    by (auto simp: read_csv_def split: list.splits if_splits)
  have "card (set get_required_fields) \<le> card (set h)"
    using sub h by (simp add: card_mono)
  then have "15 \<le> length h"
    using distinct_card [OF distinct_required] length_required card_length [of h] by linarith
  moreover have "filter (\<lambda>r. r \<noteq> []) (f @ [cs]) = h # (rs @ [cs])"
    using hrs l by auto
  ultimately show ?thesis
    using nl l sub h by (simp add: good_def read_csv_def)
qed

lemma length_cells: "length (cells E row) = 15"
  by (simp add: cells_def flatten_def length_required)




lemma ensure_None: "ensure_csv_structure None = Inr (Some [get_required_fields])"
  by (simp add: ensure_csv_structure_def)


lemma legacy_header_eq: "legacy_header =
    [''Project Name'', ''Project Price per SFT'', ''total Price'', ''Possession (Year & Month)'',
     ''Location'', ''Builder Reputation & Legal Compliance'', ''Property Type & Space Utilization'',
     ''Safety & Security'', ''Quality of Construction'', ''Home Loan & Financing Options'',
     ''Orientation'', ''Configuration (2BHK, 3BHK, etc.)'', ''Source URLs'', ''Why'']"
  by (simp add: legacy_header_def get_required_fields_def)

lemma ensure_legacy: "ensure_csv_structure (Some legacy_table) = Inr (Some repaired_table)"
  by code_simp


lemma write_sample_to_legacy: "write_to_csv E sample_record (Some legacy_table) =
   Inr (Some [legacy_header @ [''Open Space''],
              map (\<lambda>c. ''old '' @ c) legacy_header @ [sentinel],
              map (\<lambda>c. ''new '' @ c) get_required_fields])"
  by code_simp

text \<open>
  Claim C5. \<open>ensure_csv_structure\<close> is idempotent. When a call returns (it has
  created the file, repaired its header, or found nothing to do), a second call
  on the file it left returns as well and leaves that file as it is. A call
  that raises has not written, so the file is unchanged then too.
\<close>

theorem C5_ensure_idempotent:
  "ensure_csv_structure file = Inr file' \<Longrightarrow> ensure_csv_structure file' = Inr file'"
  using ensure_good good_stable by blast

theorem C5_witness_legacy_and_new:
  "ensure_csv_structure (Some legacy_table) = Inr (Some repaired_table)
   \<and> ensure_csv_structure (Some repaired_table) = Inr (Some repaired_table)
   \<and> ensure_csv_structure None = Inr (Some [get_required_fields])
   \<and> ensure_csv_structure (Some [get_required_fields]) = Inr (Some [get_required_fields])"
  using C5_ensure_idempotent [OF ensure_legacy] C5_ensure_idempotent [OF ensure_None]
    ensure_legacy ensure_None
  by simp

text \<open>
  Claim C6, checked on a table that lacks one column of the schema. The claim
  says that after the next append the header is in the order of the field
  schema and the cells of the new record stand under their columns. The code
  puts the missing column last in the header and writes the new record in the
  order of the schema: on the table without \<^verbatim>\<open>Open Space\<close>, column 7 of the
  header is \<^verbatim>\<open>Safety & Security\<close> and cell 7 of the new record is its value for
  \<^verbatim>\<open>Open Space\<close>, and so on to the last column, \<^verbatim>\<open>Open Space\<close>, under which the
  value for \<^verbatim>\<open>Why\<close> stands. (The header does hold all fifteen names, and the
  old record keeps its cells and gets the sentinel in the new column.)
\<close>

theorem C6_append_after_repair_misaligned:
  "write_to_csv E sample_record (Some legacy_table) =
     Inr (Some [legacy_header @ [''Open Space''],
                map (\<lambda>c. ''old '' @ c) legacy_header @ [sentinel],
                map (\<lambda>c. ''new '' @ c) get_required_fields])
   \<and> legacy_header @ [''Open Space''] \<noteq> get_required_fields
   \<and> (legacy_header @ [''Open Space'']) ! 7 = ''Safety & Security''
   \<and> map (\<lambda>c. ''new '' @ c) get_required_fields ! 7 = ''new Open Space''
   \<and> (legacy_header @ [''Open Space'']) ! 14 = ''Open Space''
   \<and> map (\<lambda>c. ''new '' @ c) get_required_fields ! 14 = ''new Why''"
  using write_sample_to_legacy [of E]
  by (simp add: legacy_header_eq get_required_fields_def)






section \<open>One project: lookup, classification, storage\<close>



lemma attempts_frame:
  "attempts E n as delay w = (res, w') \<Longrightarrow>
     results_csv w' = results_csv w \<and> error_log w' = error_log w
     \<and> lookups w' = lookups w \<and> clock_reads w' = clock_reads w"
proof (induction as arbitrary: delay w)
  case Nil
  then show ?case by simp
next
  case (Cons a as)
  show ?case
  proof (cases "try_body n (remote E (requests w))")
    case (Inr d)
    with Cons.prems show ?thesis by (auto simp: Let_def)
  next
    case (Inl e)
    show ?thesis
    proof (cases "a < max_retries - 1")
      case True
      with Inl Cons.prems have
        "attempts E n as (delay * 2) (w\<lparr>requests := Suc (requests w), sleeps := sleeps w @ [delay]\<rparr>) = (res, w')"
        by (simp add: Let_def)
      from Cons.IH [OF this] show ?thesis by simp
    next
      case False
      with Inl Cons.prems show ?thesis by (auto simp: Let_def)
    qed
  qed
qed

lemma get_info_frame:
  "get_info_from_perplexity E n w = (res, w') \<Longrightarrow>
     results_csv w' = results_csv w \<and> error_log w' = error_log w
     \<and> lookups w' = lookups w @ [n] \<and> clock_reads w' = clock_reads w"
  unfolding get_info_from_perplexity_def by (drule attempts_frame) simp



lemma save_success:
  assumes "ensure_csv_structure (results_csv w) = Inr file'" and "\<not> has_key d ''error''"
  shows "save_response E n (Some d) w =
     (Inr \<lparr>status = ''success'', message = None, pdata = d\<rparr>,
      w\<lparr>results_csv := append_record (cells E d) file'\<rparr>)"
  using assms by (simp add: save_response_def write_to_csv_eq cells_def)

lemma save_partial:
  assumes "ensure_csv_structure (results_csv w) = Inr file'" and "has_key d ''error''"
  shows "save_response E n (Some d) w =
     (Inr \<lparr>status = ''partial'', message = Some (dict_get d ''error'' (JStr ''Unknown error'')),
           pdata = d\<rparr>,
      write_error_log E n (dict_get d ''error'' (JStr ''Unknown error''))
        (w\<lparr>results_csv := append_record (cells E d) file'\<rparr>))"
  using assms by (simp add: save_response_def write_to_csv_eq cells_def Let_def)

lemma get_info_returns:
  "\<exists>d w1. get_info_from_perplexity E n w = (Some d, w1)"
  using get_info_filled [of E n w] by (cases "get_info_from_perplexity E n w") auto





text \<open>
  Claim C3, checked on \<^verbatim>\<open>{'a': 'b'}\<close> and on \<^verbatim>\<open>{a: 1}\<close>, each on one line. The
  claim says the repair pass turns such text into text the reader accepts.
  The first two substitutions do (third and sixth line below). The third
  substitution then puts a backslash before every double quote that another
  double quote follows on the last line, so the repaired text starts with
  \<^verbatim>\<open>{\"a\<close>, the reader refuses it, and the attempt ends in the exception.
\<close>

theorem C3_repair_breaks_one_line_text:
  "fix_json_string single_quoted_answer =
     ''{'' @ [bslash, dquote] @ ''a'' @ [bslash, dquote] @ '': '' @ [bslash, dquote] @ ''b''
       @ [dquote] @ ''}''
   \<and> json_loads (fix_json_string single_quoted_answer) = Inl (JSONDecodeError ExpectingPropertyName)
   \<and> json_loads (replace_single_quotes (quote_keys 0 single_quoted_answer)) =
       Inr (JDict [(''a'', JStr ''b'')])
   \<and> fix_json_string bare_key_answer = ''{'' @ [bslash, dquote] @ ''a'' @ [dquote] @ '': 1}''
   \<and> json_loads (fix_json_string bare_key_answer) = Inl (JSONDecodeError ExpectingPropertyName)
   \<and> json_loads (replace_single_quotes (quote_keys 0 bare_key_answer)) =
       Inr (JDict [(''a'', JInt 1)])
   \<and> try_body project_name (Inr single_quoted_answer) =
       Inl (JSONDecodeError ExpectingPropertyName)
   \<and> try_body project_name (Inr bare_key_answer) =
       Inl (JSONDecodeError ExpectingPropertyName)"
  by code_simp






section \<open>The batch\<close>

text \<open>
  The names a batch processes: the stripped names that are not empty, in the
  order given. The statuses of the detail entries are counted by
  \<open>count_status\<close> and \<open>count_other\<close>; \<open>counted\<close> says that the three counters of
  a summary are these counts.
\<close>

definition kept_names :: "string list \<Rightarrow> string list" where
  "kept_names names = filter (\<lambda>n. n \<noteq> []) (map strip names)"

definition count_status :: "string \<Rightarrow> (string \<times> string \<times> json) list \<Rightarrow> nat" where
  "count_status st ds = length (filter (\<lambda>d. fst (snd d) = st) ds)"

definition count_other :: "(string \<times> string \<times> json) list \<Rightarrow> nat" where
  "count_other ds =
     length (filter (\<lambda>d. fst (snd d) \<noteq> ''success'' \<and> fst (snd d) \<noteq> ''partial'') ds)"

definition counted :: "summary \<Rightarrow> bool" where
  "counted results =
     (success results = count_status ''success'' (details results)
      \<and> partial results = count_status ''partial'' (details results)
      \<and> failed results = count_other (details results))"

lemma write_error_log_frame:
  "results_csv (write_error_log E n m w) = results_csv w
   \<and> lookups (write_error_log E n m w) = lookups w"
  by (simp add: write_error_log_def Let_def)

lemma process_single_project_returns:
  assumes "ensure_csv_structure (results_csv w) = Inr file'"
  shows "\<exists>d w1 r w2. get_info_from_perplexity E n w = (Some d, w1)
       \<and> process_single_project E n w = (Inr r, w2)
       \<and> pdata r = d
       \<and> status r = (if has_key d ''error'' then ''partial'' else ''success'')
       \<and> results_csv w2 = append_record (cells E d) file'
       \<and> lookups w2 = lookups w @ [n]"
proof -
  obtain d w1 where g: "get_info_from_perplexity E n w = (Some d, w1)"
    using get_info_returns by blast
  have fr: "results_csv w1 = results_csv w" "lookups w1 = lookups w @ [n]"
    using get_info_frame [OF g] by auto
  have e: "ensure_csv_structure (results_csv w1) = Inr file'"
    using fr assms by simp
  show ?thesis
  proof (cases "has_key d ''error''")
    case True
    show ?thesis
      unfolding process_single_project_def g
      using True fr by (simp add: save_partial [OF e True] write_error_log_frame)
  next
    case False
    show ?thesis
      unfolding process_single_project_def g
      using False fr by (simp add: save_success [OF e False])
  qed
qed

lemma process_single_project_good:
  assumes "results_csv w = Some f" and "good f"
  shows "\<exists>r w2 f2. process_single_project E n w = (Inr r, w2)
       \<and> (status r = ''success'' \<or> status r = ''partial'')
       \<and> lookups w2 = lookups w @ [n]
       \<and> results_csv w2 = Some f2 \<and> good f2"
proof -
  have e: "ensure_csv_structure (results_csv w) = Inr (Some f)"
    using assms by (simp add: good_stable)
  from process_single_project_returns [OF e, of E n]
  obtain d r w2 where p: "process_single_project E n w = (Inr r, w2)"
    and st: "status r = (if has_key d ''error'' then ''partial'' else ''success'')"
    and rc: "results_csv w2 = append_record (cells E d) (Some f)"
    and lk: "lookups w2 = lookups w @ [n]"
    by blast
  have "good (f @ [cells E d])"
    using assms(2) length_cells by (rule good_append)
  with p st rc lk show ?thesis
    by (auto simp: append_record_def)
qed

lemma tally_counted:
  "counted results \<Longrightarrow> counted (tally n r results)
     \<and> map fst (details (tally n r results)) = map fst (details results) @ [n]"
  by (auto simp: counted_def tally_def count_status_def count_other_def Let_def)

lemma process_loop_good:
  assumes "results_csv w = Some f" and "good f" and "counted results"
  shows "\<exists>res w' f'. process_loop E names results w = (Inr res, w')
       \<and> counted res
       \<and> map fst (details res) = map fst (details results) @ kept_names names
       \<and> lookups w' = lookups w @ kept_names names
       \<and> results_csv w' = Some f' \<and> good f'"
  using assms
proof (induction names arbitrary: results w f)
  case Nil
  then show ?case by (simp add: kept_names_def)
next
  case (Cons name names)
  show ?case
  proof (cases "strip name = []")
    case True
    from Cons.IH [OF Cons.prems] show ?thesis
      using True by (simp add: kept_names_def)
  next
    case False
    from process_single_project_good [OF Cons.prems(1,2), of E "strip name"]
    obtain r w2 f2 where p: "process_single_project E (strip name) w = (Inr r, w2)"
      and lk: "lookups w2 = lookups w @ [strip name]"
      and rc: "results_csv w2 = Some f2" and g2: "good f2"
      by blast
    let ?w3 = "w2\<lparr>sleeps := sleeps w2 @ [1]\<rparr>"
    let ?res1 = "tally (strip name) r results"
    have c1: "counted ?res1"
      and d1: "map fst (details ?res1) = map fst (details results) @ [strip name]"
      using tally_counted [OF Cons.prems(3)] by auto
    have rc3: "results_csv ?w3 = Some f2" using rc by simp
    from Cons.IH [OF rc3 g2 c1]
    obtain res w' f' where l: "process_loop E names ?res1 ?w3 = (Inr res, w')"
      and cr: "counted res"
      and dr: "map fst (details res) = map fst (details ?res1) @ kept_names names"
      and lr: "lookups w' = lookups ?w3 @ kept_names names"
      and fr: "results_csv w' = Some f'" "good f'"
      by blast
    have "process_loop E (name # names) results w = (Inr res, w')"
      using False p l by (simp add: Let_def)
    moreover have "kept_names (name # names) = strip name # kept_names names"
      using False by (simp add: kept_names_def)
    ultimately show ?thesis
      using cr dr lr fr d1 lk by simp
  qed
qed

lemma counts_partition:
  "count_status ''success'' ds + count_status ''partial'' ds + count_other ds = length ds"
  by (induction ds) (auto simp: count_status_def count_other_def)

lemma process_project_list_unreadable:
  "ensure_csv_structure (results_csv w) = Inl e \<Longrightarrow>
   process_project_list E project_names w = (Inl e, w)"
  by (simp add: process_project_list_def)

lemma mixed_batch:
  "process_project_list mixed_env
      [''Green Meadows'', ''  '', '' Lake Vista'', ''Lake Vista ''] fresh_world =
   (Inr \<lparr>success = 1, partial = 2, failed = 0,
         details =
          [(''Green Meadows'', ''success'', JStr ''Success''),
           (''Lake Vista'', ''partial'', JStr ''Read timed out''),
           (''Lake Vista'', ''partial'', JStr ''Read timed out'')]\<rparr>,
    fresh_world\<lparr>requests := 7, sleeps := [1, 5, 10, 1, 5, 10, 1],
      lookups := [''Green Meadows'', ''Lake Vista'', ''Lake Vista''],
      results_csv := Some [get_required_fields,
        [''Green Meadows'', sentinel, sentinel, sentinel, ''Hyderabad'', sentinel, sentinel,
         sentinel, sentinel, sentinel, sentinel, sentinel, sentinel, sentinel, sentinel],
        [''Lake Vista'', sentinel, sentinel, sentinel, sentinel, sentinel, sentinel, sentinel,
         sentinel, sentinel, sentinel, sentinel, sentinel, [], sentinel],
        [''Lake Vista'', sentinel, sentinel, sentinel, sentinel, sentinel, sentinel, sentinel,
         sentinel, sentinel, sentinel, sentinel, sentinel, [], sentinel]],
      error_log := Some [[''Project Name'', ''Error Message'', ''Timestamp''],
                         [''Lake Vista'', ''Read timed out'', ''2025-01-01 00:00:00''],
                         [''Lake Vista'', ''Read timed out'', ''2025-01-01 00:00:00'']],
      clock_reads := 2\<rparr>)"
  by code_simp

lemma mixed_kept:
  "kept_names [''Green Meadows'', ''  '', '' Lake Vista'', ''Lake Vista ''] =
     [''Green Meadows'', ''Lake Vista'', ''Lake Vista'']"
  by code_simp

text \<open>
  Claim C9. When the results table can be brought up to date at the start
  (otherwise \<open>ensure_csv_structure\<close> raises before any name is looked at, see
  \<open>process_project_list_unreadable\<close>), the batch returns a summary. Its detail
  entries are, in order, the stripped names that are not empty: a name given
  twice is there twice. The client was called once for each of them, in that
  order. Each counter is the number of detail entries with its status, every
  entry counts for exactly one counter, and the three counters add up to the
  number of names processed.
\<close>

theorem C9_batch_processes_each_name_once:
  assumes "ensure_csv_structure (results_csv w) = Inr file'"
  shows "\<exists>res w'. process_project_list E project_names w = (Inr res, w')
       \<and> map fst (details res) = kept_names project_names
       \<and> lookups w' = lookups w @ kept_names project_names
       \<and> success res = count_status ''success'' (details res)
       \<and> partial res = count_status ''partial'' (details res)
       \<and> failed res = count_other (details res)
       \<and> success res + partial res + failed res = length (kept_names project_names)"
proof -
  obtain f where f: "file' = Some f" and g: "good f"
    using ensure_good [OF assms] by blast
  let ?w0 = "w\<lparr>results_csv := file'\<rparr>"
  let ?r0 = "\<lparr>success = 0, partial = 0, failed = 0, details = []\<rparr>"
  have c0: "counted ?r0" by (simp add: counted_def count_status_def count_other_def)
  have rc: "results_csv ?w0 = Some f" using f by simp
  from process_loop_good [OF rc g c0, of E project_names]
  obtain res w' where l: "process_loop E project_names ?r0 ?w0 = (Inr res, w')"
    and cr: "counted res"
    and dr: "map fst (details res) = kept_names project_names"
    and lr: "lookups w' = lookups w @ kept_names project_names"
    by auto
  have "length (details res) = length (kept_names project_names)"
    using dr by (metis length_map)
  then have "success res + partial res + failed res = length (kept_names project_names)"
    using cr counts_partition [of "details res"] by (simp add: counted_def)
  moreover have "process_project_list E project_names w = (Inr res, w')"
    using assms l by (simp add: process_project_list_def)
  ultimately show ?thesis
    using cr dr lr by (auto simp: counted_def)
qed

theorem C9_witness_mixed_batch:
  "fst (process_project_list mixed_env
      [''Green Meadows'', ''  '', '' Lake Vista'', ''Lake Vista ''] fresh_world) =
   Inr \<lparr>success = 1, partial = 2, failed = 0,
         details =
          [(''Green Meadows'', ''success'', JStr ''Success''),
           (''Lake Vista'', ''partial'', JStr ''Read timed out''),
           (''Lake Vista'', ''partial'', JStr ''Read timed out'')]\<rparr>
   \<and> lookups (snd (process_project_list mixed_env
      [''Green Meadows'', ''  '', '' Lake Vista'', ''Lake Vista ''] fresh_world)) =
     [''Green Meadows'', ''Lake Vista'', ''Lake Vista'']"
proof -
  have e: "ensure_csv_structure (results_csv fresh_world) = Inr (Some [get_required_fields])"
    by (simp add: fresh_world_def ensure_None)
  show ?thesis
    using C9_batch_processes_each_name_once [OF e, of mixed_env "[''Green Meadows'', ''  '', '' Lake Vista'', ''Lake Vista '']"]
    by (simp add: mixed_batch mixed_kept)
qed

end
